theory Spec2Isabelle
  imports Main "HOL-Library.Char_ord" "HOL-Library.List_Lexorder"
begin

section \<open>Python exceptions\<close>

text \<open>
  Every \<^verbatim>\<open>raise\<close> of the modelled code is a value of this type. \<open>ExternalError\<close>
  stands for any exception raised by a collaborator that is not part of the modelled
  files (the future, the file system, the JSON codec, the storage backend). All of them
  are subclasses of Python's \<^verbatim>\<open>Exception\<close>, which is what the guard of
  \<^verbatim>\<open>_process_results\<close> catches.
\<close>

datatype py_exception =
    ValueError string
  | AttributeError string
  | TypeError string
  | ExternalError string

section \<open>layers.py: the registry of calculation layers\<close>

text \<open>
  \<^verbatim>\<open>available_layers = {}\<close> is a dictionary from class names to classes. A class is
  modelled by its \<^verbatim>\<open>__name__\<close> and a body of any type.
\<close>

datatype 'b py_class = PyClass (cls_name: string) (cls_body: 'b)

type_synonym 'b layer_registry = "string \<rightharpoonup> 'b py_class"

text \<open>
  \<^verbatim>\<open>register_calculation_layer()(cls)\<close>: the decorator applied to a class. It returns
  the class or raises, and the registry after the call is returned beside the result.
\<close>

definition register_calculation_layer ::
  "'b py_class \<Rightarrow> 'b layer_registry \<Rightarrow> (py_exception + 'b py_class) \<times> 'b layer_registry" where
  "register_calculation_layer cls available_layers =
     (if cls_name cls \<in> dom available_layers
      then (Inl (ValueError (''The '' @ cls_name cls @ '' layer is already registered.'')),
            available_layers)
      else (Inr cls, available_layers(cls_name cls \<mapsto> cls)))"

section \<open>layers.py: results and the server request\<close>

text \<open>
  A physical property as the aggregation uses it: \<^verbatim>\<open>x.id\<close> and
  \<^verbatim>\<open>x.substance.identifier\<close>. Python's \<^verbatim>\<open>==\<close> on properties (used by
  \<^verbatim>\<open>list.remove\<close>) is HOL equality on the record.
\<close>

record physical_property =
  prop_id :: string
  substance_identifier :: string

text \<open>
  The entries of \<^verbatim>\<open>server_request.exceptions\<close>: an exception object reported by a
  layer in \<^verbatim>\<open>CalculationLayerResult.exception\<close>, or the
  \<^verbatim>\<open>PropertyEstimatorException\<close> that the guard builds from a caught exception
  \<open>e\<close>; its message 'An unhandled internal exception occurred: ...' holds
  \<^verbatim>\<open>traceback.format_exception(None, e, e.__traceback__)\<close>, modelled by \<open>e\<close>
  itself.
\<close>

datatype estimator_exception =
    ReportedException string
  | UnhandledInternalException py_exception

record calculation_layer_result =
  property_id :: "string option"
  calculated_property :: "physical_property option"
  exception :: "estimator_exception option"
  data_directories_to_store :: "string list option"

text \<open>What a layer may hand back for one property: \<^verbatim>\<open>None\<close>, a
  \<^verbatim>\<open>CalculationLayerResult\<close>, or an object of any other type.\<close>

datatype returned_output =
    PyNone
  | LayerResult calculation_layer_result
  | OtherObject string

text \<open>\<^verbatim>\<open>PropertyEstimatorServer.ServerEstimationRequest\<close>, with the fields the
  aggregation reads and writes.\<close>

record server_request =
  request_id :: string
  force_field_id :: string
  queued_properties :: "physical_property list"
  estimated_properties :: "string \<rightharpoonup> physical_property list"
  unsuccessful_properties :: "string \<rightharpoonup> physical_property list"
  exceptions :: "estimator_exception list"

text \<open>
  The object that \<^verbatim>\<open>json.load\<close> reads from \<^verbatim>\<open>data.json\<close>:
  \<^verbatim>\<open>data_object.force_field_id\<close> and \<^verbatim>\<open>data_object.substance.identifier\<close>.
\<close>

record data_object =
  data_force_field_id :: "string option"
  data_substance_identifier :: string

text \<open>
  The file system as the storing loop sees it, keyed by data directory. \<open>None\<close>: the
  directory or its \<^verbatim>\<open>data.json\<close> does not exist. \<open>Some (Inl e)\<close>: reading the file
  raises \<open>e\<close>. \<open>Some (Inr d)\<close>: the file decodes to \<open>d\<close>.
\<close>

type_synonym file_system = "string \<rightharpoonup> (py_exception + data_object)"

text \<open>
  The state that \<^verbatim>\<open>_process_results\<close> acts on. \<open>storage\<close> is the state of the
  storage backend; \<open>callbacks\<close> lists the requests the callback was called with, oldest
  first.
\<close>

record 's layer_state =
  request :: server_request
  files :: file_system
  storage :: 's
  callbacks :: "server_request list"

text \<open>\<^verbatim>\<open>storage_backend.store_simulation_data(substance_id, data_directory)\<close>: a
  collaborator, which may raise.\<close>

type_synonym 's storage_backend = "string \<Rightarrow> string \<Rightarrow> 's \<Rightarrow> py_exception + 's"

text \<open>
  One round of the loop over \<^verbatim>\<open>data_directories_to_store\<close>. The result is the
  exception raised, if any, and the state reached.
\<close>

definition store_data_directory ::
  "'s storage_backend \<Rightarrow> string \<Rightarrow> 's layer_state \<Rightarrow> py_exception option \<times> 's layer_state" where
  "store_data_directory store_simulation_data data_directory s =
     (case files s data_directory of
        None \<Rightarrow> (None, s)
      | Some (Inl e) \<Rightarrow> (Some e, s)
      | Some (Inr data) \<Rightarrow>
          (let data' = (if data_force_field_id data = None
                        then data\<lparr>data_force_field_id := Some (force_field_id (request s))\<rparr>
                        else data);
               s' = s\<lparr>files := (files s)(data_directory \<mapsto> Inr data')\<rparr>
           in case store_simulation_data (data_substance_identifier data') data_directory (storage s') of
                Inl e \<Rightarrow> (Some e, s')
              | Inr st \<Rightarrow> (None, s'\<lparr>storage := st\<rparr>)))"

fun store_data_directories ::
  "'s storage_backend \<Rightarrow> string list \<Rightarrow> 's layer_state \<Rightarrow> py_exception option \<times> 's layer_state" where
  "store_data_directories store_simulation_data [] s = (None, s)"
| "store_data_directories store_simulation_data (d # ds) s =
     (case store_data_directory store_simulation_data d s of
        (Some e, s') \<Rightarrow> (Some e, s')
      | (None, s') \<Rightarrow> store_data_directories store_simulation_data ds s')"

text \<open>\<^verbatim>\<open>list.remove(x)\<close>: removes the first element equal to \<open>x\<close>, and raises
  \<^verbatim>\<open>ValueError\<close> when there is none.\<close>

definition list_remove :: "'a \<Rightarrow> 'a list \<Rightarrow> py_exception + 'a list" where
  "list_remove x xs =
     (if x \<in> set xs then Inr (remove1 x xs) else Inl (ValueError ''list.remove(x): x not in list''))"

text \<open>\<^verbatim>\<open>for match in matches: server_request.queued_properties.remove(match)\<close>\<close>

fun remove_matches ::
  "physical_property list \<Rightarrow> physical_property list \<Rightarrow> py_exception option \<times> physical_property list" where
  "remove_matches [] queue = (None, queue)"
| "remove_matches (m # ms) queue =
     (case list_remove m queue of
        Inl e \<Rightarrow> (Some e, queue)
      | Inr queue' \<Rightarrow> remove_matches ms queue')"

text \<open>Python's \<^verbatim>\<open>str\<close> of an optional string, for the f-string of the conflict
  message.\<close>

definition str_of_id :: "string option \<Rightarrow> string" where
  "str_of_id i = (case i of None \<Rightarrow> ''None'' | Some s \<Rightarrow> s)"

text \<open>\<^verbatim>\<open>d[k].append(v)\<close> after \<^verbatim>\<open>if k not in d: d[k] = []\<close>.\<close>

definition append_under :: "('k \<rightharpoonup> 'v list) \<Rightarrow> 'k \<Rightarrow> 'v \<Rightarrow> ('k \<rightharpoonup> 'v list)" where
  "append_under d k v = d(k \<mapsto> (case d k of None \<Rightarrow> [] | Some vs \<Rightarrow> vs) @ [v])"

text \<open>
  Lines 185 to 228: matching the result against the queue and routing it. The state of
  the request when the conflict is raised is the one with the matches removed.
\<close>

definition match_and_route ::
  "calculation_layer_result \<Rightarrow> server_request \<Rightarrow> py_exception option \<times> server_request" where
  "match_and_route returned_output req =
     (let matches = filter (\<lambda>x. Some (prop_id x) = property_id returned_output) (queued_properties req)
      in case remove_matches matches (queued_properties req) of
           (Some e, queue) \<Rightarrow> (Some e, req\<lparr>queued_properties := queue\<rparr>)
         | (None, queue) \<Rightarrow>
             (let req1 = req\<lparr>queued_properties := queue\<rparr>
              in if length matches > 1
                 then (Some (ValueError (''A property id ('' @ str_of_id (property_id returned_output)
                                          @ '') conflict occurred.'')), req1)
                 else if length matches = 0 then (None, req1)
                 else if calculated_property returned_output = None \<and> exception returned_output = None
                 then (None, req1)
                 else (case calculated_property returned_output of
                         None \<Rightarrow> (None, req1)
                       | Some prop \<Rightarrow>
                           (let substance_id = substance_identifier prop
                            in if exception returned_output = None
                               then (None, req1\<lparr>estimated_properties :=
                                        append_under (estimated_properties req1) substance_id prop\<rparr>)
                               else (None, req1\<lparr>unsuccessful_properties :=
                                        append_under (unsuccessful_properties req1) substance_id prop\<rparr>)))))"

text \<open>
  Lines 151 to 183: a reported exception is appended to the request's list; without one,
  the data directories are stored.
\<close>

definition record_or_store ::
  "'s storage_backend \<Rightarrow> calculation_layer_result \<Rightarrow> 's layer_state
     \<Rightarrow> py_exception option \<times> 's layer_state" where
  "record_or_store store_simulation_data returned_output s =
     (case exception returned_output of
        Some ex \<Rightarrow>
          (None, s\<lparr>request := (request s)\<lparr>exceptions := exceptions (request s) @ [ex]\<rparr>\<rparr>)
      | None \<Rightarrow>
          (case data_directories_to_store returned_output of
             None \<Rightarrow> (None, s)
           | Some dirs \<Rightarrow>
               if calculated_property returned_output = None then (None, s)
               else store_data_directories store_simulation_data dirs s))"

text \<open>The body of the loop over \<^verbatim>\<open>results\<close>, lines 140 to 228.\<close>

definition process_output ::
  "'s storage_backend \<Rightarrow> returned_output \<Rightarrow> 's layer_state \<Rightarrow> py_exception option \<times> 's layer_state" where
  "process_output store_simulation_data out s =
     (case out of
        PyNone \<Rightarrow> (None, s)
      | OtherObject _ \<Rightarrow>
          (Some (ValueError ''The output of the calculation was not a CalculationLayerResult as expected.''), s)
      | LayerResult returned_output \<Rightarrow>
          (case record_or_store store_simulation_data returned_output s of
             (Some e, s1) \<Rightarrow> (Some e, s1)
           | (None, s1) \<Rightarrow>
               (case match_and_route returned_output (request s1) of
                  (err, req) \<Rightarrow> (err, s1\<lparr>request := req\<rparr>))))"

text \<open>\<^verbatim>\<open>for returned_output in results\<close>: an exception leaves the loop.\<close>

fun process_outputs ::
  "'s storage_backend \<Rightarrow> returned_output list \<Rightarrow> 's layer_state \<Rightarrow> py_exception option \<times> 's layer_state" where
  "process_outputs store_simulation_data [] s = (None, s)"
| "process_outputs store_simulation_data (out # outs) s =
     (case process_output store_simulation_data out s of
        (Some e, s') \<Rightarrow> (Some e, s')
      | (None, s') \<Rightarrow> process_outputs store_simulation_data outs s')"

text \<open>
  The body of the \<^verbatim>\<open>try\<close>. The future is what \<^verbatim>\<open>list(results_future.result())\<close>
  gives: the exception it raises, or the list of outputs.
\<close>

definition try_body ::
  "'s storage_backend \<Rightarrow> py_exception + returned_output list \<Rightarrow> 's layer_state
     \<Rightarrow> py_exception option \<times> 's layer_state" where
  "try_body store_simulation_data results_future s =
     (case results_future of
        Inl e \<Rightarrow> (Some e, s)
      | Inr results \<Rightarrow> process_outputs store_simulation_data results s)"

text \<open>\<^verbatim>\<open>PropertyCalculationLayer._process_results\<close>: the guarded body, the handler and
  the call of the callback.\<close>

definition process_results ::
  "'s storage_backend \<Rightarrow> py_exception + returned_output list \<Rightarrow> 's layer_state \<Rightarrow> 's layer_state" where
  "process_results store_simulation_data results_future s =
     (let (err, s1) = try_body store_simulation_data results_future s;
          s2 = (case err of
                  None \<Rightarrow> s1
                | Some e \<Rightarrow>
                    s1\<lparr>request := (request s1)\<lparr>exceptions :=
                          exceptions (request s1) @ [UnhandledInternalException e]\<rparr>\<rparr>)
      in s2\<lparr>callbacks := callbacks s2 @ [request s2]\<rparr>)"

section \<open>workflow: protocol paths, values and classes\<close>

text \<open>
  Modelled from the spec: \<^verbatim>\<open>ProtocolPath\<close> (propertyestimator.workflow.utils) is not
  among the files. The spec's PathAddress is a chain of protocol ids and a property name,
  and two addresses are equal iff their canonical strings match, which HOL equality on
  the record gives. \<open>start_protocol\<close> and \<open>last_protocol\<close> are the first and the last id
  of the chain, \<^verbatim>\<open>None\<close> for an address that is not bound to a node.
\<close>

record protocol_path =
  protocol_ids :: "string list"
  property_name :: string

definition start_protocol :: "protocol_path \<Rightarrow> string option" where
  "start_protocol p = (case protocol_ids p of [] \<Rightarrow> None | i # _ \<Rightarrow> Some i)"

definition last_protocol :: "protocol_path \<Rightarrow> string option" where
  "last_protocol p = (if protocol_ids p = [] then None else Some (last (protocol_ids p)))"

text \<open>
  Modelled from the spec: \<^verbatim>\<open>MergeBehaviour\<close> (propertyestimator.workflow.decorators) is
  not among the files; these are the members that protocols.py names. The spec's fourth
  policy, Unmanaged, is an input whose descriptor has no \<^verbatim>\<open>merge_behavior\<close> at all.
\<close>

datatype merge_behaviour = ExactlyEqual | SmallestValue | GreatestValue

text \<open>
  The values an attribute of a protocol holds in this model: \<^verbatim>\<open>None\<close>, booleans,
  integers, strings and protocol paths. Quantities with units and floats are left out.
\<close>

datatype py_value =
    NoneValue
  | BoolValue bool
  | IntValue int
  | StrValue string
  | PathValue protocol_path

text \<open>Python's truth value of an object, for \<^verbatim>\<open>if not self.allow_merging\<close>.\<close>

fun truthy :: "py_value \<Rightarrow> bool" where
  "truthy NoneValue = False"
| "truthy (BoolValue b) = b"
| "truthy (IntValue i) = (i \<noteq> 0)"
| "truthy (StrValue s) = (s \<noteq> [])"
| "truthy (PathValue p) = True"

text \<open>\<^verbatim>\<open>bool\<close> is a subclass of \<^verbatim>\<open>int\<close>: \<^verbatim>\<open>True == 1\<close> and \<^verbatim>\<open>False < 2\<close>.\<close>

fun int_of :: "py_value \<Rightarrow> int option" where
  "int_of (BoolValue b) = Some (if b then 1 else 0)"
| "int_of (IntValue i) = Some i"
| "int_of _ = None"

text \<open>Python's \<^verbatim>\<open>==\<close> on these values.\<close>

definition py_eq :: "py_value \<Rightarrow> py_value \<Rightarrow> bool" where
  "py_eq a b =
     (case (int_of a, int_of b) of
        (Some i, Some j) \<Rightarrow> i = j
      | _ \<Rightarrow> a = b)"

text \<open>Python's \<^verbatim>\<open><\<close>: numbers by value, strings by code points, anything else raises
  \<^verbatim>\<open>TypeError\<close>.\<close>

definition py_lt :: "py_value \<Rightarrow> py_value \<Rightarrow> py_exception + bool" where
  "py_lt a b =
     (case (int_of a, int_of b) of
        (Some i, Some j) \<Rightarrow> Inr (i < j)
      | _ \<Rightarrow>
          (case (a, b) of
             (StrValue s, StrValue t) \<Rightarrow> Inr (s < t)
           | _ \<Rightarrow> Inl (TypeError ''unsupported operand types for comparison'')))"



text \<open>
  \<^verbatim>\<open>type(self)\<close>. \<open>base_names\<close> are the names of its proper base classes.
  \<open>class_attributes n\<close> is \<^verbatim>\<open>getattr(type(self), n)\<close>: \<open>None\<close> when the class has no
  such attribute, \<open>Some None\<close> for an attribute without \<^verbatim>\<open>merge_behavior\<close>, and
  \<open>Some (Some b)\<close> for a descriptor with \<^verbatim>\<open>merge_behavior == b\<close>. \<open>input_attributes\<close>
  and \<open>output_attributes\<close> are what \<^verbatim>\<open>utils.find_types_with_decorator\<close> returns for
  \<^verbatim>\<open>ProtocolInputObject\<close> and \<^verbatim>\<open>ProtocolOutputObject\<close>.
\<close>

record protocol_class =
  type_name :: string
  base_names :: "string list"
  class_attributes :: "string \<rightharpoonup> merge_behaviour option"
  input_attributes :: "string list"
  output_attributes :: "string list"

text \<open>
  An instance of \<^verbatim>\<open>BaseProtocol\<close> or of a subclass. \<open>attributes n\<close> is
  \<^verbatim>\<open>getattr(self, n)\<close> for the attributes that hold values (\<open>None\<close> where
  \<^verbatim>\<open>hasattr(self, n)\<close> is false); the id and the two lists of paths are fields of their
  own.
\<close>

record protocol =
  protocol_id :: string
  protocol_type :: protocol_class
  required_inputs :: "protocol_path list"
  provided_outputs :: "protocol_path list"
  attributes :: "string \<rightharpoonup> py_value"

text \<open>\<^verbatim>\<open>ProtocolPath(property_name)\<close>: an address with no protocol ids.\<close>

definition ProtocolPath :: "string \<Rightarrow> protocol_path" where
  "ProtocolPath n = \<lparr>protocol_ids = [], property_name = n\<rparr>"

text \<open>\<^verbatim>\<open>BaseProtocol.__init__\<close>: the id, \<^verbatim>\<open>_allow_merging = True\<close>, the paths of the
  declared outputs and inputs, and \<^verbatim>\<open>directory = None\<close>.\<close>

definition BaseProtocol_init :: "protocol_class \<Rightarrow> string \<Rightarrow> protocol" where
  "BaseProtocol_init cls new_id =
     \<lparr>protocol_id = new_id,
      protocol_type = cls,
      required_inputs = map ProtocolPath (input_attributes cls),
      provided_outputs = map ProtocolPath (output_attributes cls),
      attributes = [''allow_merging'' \<mapsto> BoolValue True, ''directory'' \<mapsto> NoneValue]\<rparr>"

text \<open>\<^verbatim>\<open>isinstance(obj, cls)\<close>: the class of \<open>obj\<close> is \<open>cls\<close> or has it among its bases.\<close>

definition isinstance :: "protocol \<Rightarrow> protocol_class \<Rightarrow> bool" where
  "isinstance obj cls =
     (type_name cls = type_name (protocol_type obj)
      \<or> type_name cls \<in> set (base_names (protocol_type obj)))"

section \<open>protocols.py: get_value and set_value\<close>

definition get_value :: "protocol \<Rightarrow> protocol_path \<Rightarrow> py_exception + py_value" where
  "get_value self reference_path =
     (if start_protocol reference_path \<noteq> None
         \<and> start_protocol reference_path \<noteq> Some (protocol_id self)
      then Inl (ValueError ''The reference path does not target this protocol.'')
      else case attributes self (property_name reference_path) of
             None \<Rightarrow> Inl (ValueError (''This protocol does not have contain a ''
                                     @ property_name reference_path @ '' property.''))
           | Some v \<Rightarrow> Inr v)"


section \<open>protocols.py: can_merge and merge\<close>

text \<open>The test on a path that both loops make before they look at its merge behaviour:
  the path is unbound, or bound to this protocol alone.\<close>

definition local_path :: "protocol \<Rightarrow> protocol_path \<Rightarrow> bool" where
  "local_path self input_path =
     (start_protocol input_path = None
      \<or> (start_protocol input_path = last_protocol input_path
          \<and> start_protocol input_path = Some (protocol_id self)))"

text \<open>The loop of \<^verbatim>\<open>can_merge\<close> over \<^verbatim>\<open>self.required_inputs\<close>, lines 295 to 328.\<close>

fun can_merge_inputs :: "protocol \<Rightarrow> protocol \<Rightarrow> protocol_path list \<Rightarrow> py_exception + bool" where
  "can_merge_inputs self other [] = Inr True"
| "can_merge_inputs self other (input_path # paths) =
     (if start_protocol input_path \<noteq> None \<and> start_protocol input_path \<noteq> Some (protocol_id self)
      then can_merge_inputs self other paths
      else if \<not> local_path self input_path
      then can_merge_inputs self other paths
      else case class_attributes (protocol_type self) (property_name input_path) of
             None \<Rightarrow> Inl (AttributeError (property_name input_path))
           | Some None \<Rightarrow> can_merge_inputs self other paths
           | Some (Some merge_behavior) \<Rightarrow>
               if merge_behavior \<noteq> ExactlyEqual then can_merge_inputs self other paths
               else if input_path \<notin> set (required_inputs other) then Inr False
               else (case get_value self input_path of
                       Inl e \<Rightarrow> Inl e
                     | Inr self_value \<Rightarrow>
                         (case get_value other input_path of
                            Inl e \<Rightarrow> Inl e
                          | Inr other_value \<Rightarrow>
                              if \<not> py_eq self_value other_value then Inr False
                              else can_merge_inputs self other paths)))"

definition can_merge :: "protocol \<Rightarrow> protocol \<Rightarrow> py_exception + bool" where
  "can_merge self other =
     (case attributes self ''allow_merging'' of
        None \<Rightarrow> Inl (AttributeError ''allow_merging'')
      | Some allow_merging \<Rightarrow>
          if \<not> truthy allow_merging then Inr False
          else if \<not> isinstance self (protocol_type other) then Inr False
          else can_merge_inputs self other (required_inputs self))"



section \<open>protocols.py: set_uuid\<close>

text \<open>\<^verbatim>\<open>s.find(sub)\<close>: the lowest index at which \<open>sub\<close> starts in \<open>s\<close>, or \<open>-1\<close>.\<close>

fun find_from :: "string \<Rightarrow> string \<Rightarrow> int \<Rightarrow> int" where
  "find_from [] sub i = (if sub = [] then i else - 1)"
| "find_from (c # cs) sub i =
     (if take (length sub) (c # cs) = sub then i else find_from cs sub (i + 1))"

definition py_find :: "string \<Rightarrow> string \<Rightarrow> int" where
  "py_find s sub = find_from s sub 0"

text \<open>
  The loop over \<^verbatim>\<open>self.required_inputs\<close>, lines 232 to 238: each path is tagged in
  place, the value under the tagged path is read, and a value that is a path is tagged
  as well. The result is the list of tagged paths and the protocol. \<open>path_append_uuid\<close>
  is \<^verbatim>\<open>ProtocolPath.append_uuid\<close>, which is not among the files.
\<close>

fun set_uuid_inputs ::
  "(protocol_path \<Rightarrow> string \<Rightarrow> protocol_path) \<Rightarrow> string \<Rightarrow> protocol \<Rightarrow> protocol_path list
     \<Rightarrow> py_exception + protocol_path list \<times> protocol" where
  "set_uuid_inputs path_append_uuid uuid self [] = Inr ([], self)"
| "set_uuid_inputs path_append_uuid uuid self (input_path # paths) =
     (let input_path' = path_append_uuid input_path uuid
      in case get_value self input_path' of
           Inl e \<Rightarrow> Inl e
         | Inr input_value \<Rightarrow>
             (let self' = (case input_value of
                             PathValue q \<Rightarrow>
                               self\<lparr>attributes := (attributes self)
                                  (property_name input_path' \<mapsto> PathValue (path_append_uuid q uuid))\<rparr>
                           | _ \<Rightarrow> self)
              in case set_uuid_inputs path_append_uuid uuid self' paths of
                   Inl e \<Rightarrow> Inl e
                 | Inr (paths', self'') \<Rightarrow> Inr (input_path' # paths', self'')))"

text \<open>
  \<^verbatim>\<open>BaseProtocol.set_uuid\<close>. \<open>append_uuid\<close> is \<^verbatim>\<open>graph.append_uuid\<close>, which is not
  among the files either; both helpers are parameters.
\<close>

definition set_uuid ::
  "(string \<Rightarrow> string \<Rightarrow> string) \<Rightarrow> (protocol_path \<Rightarrow> string \<Rightarrow> protocol_path)
     \<Rightarrow> protocol \<Rightarrow> string \<Rightarrow> py_exception + protocol" where
  "set_uuid append_uuid path_append_uuid self uuid =
     (if py_find (protocol_id self) uuid \<ge> 0 then Inr self
      else (let self1 = self\<lparr>protocol_id := append_uuid (protocol_id self) uuid\<rparr>
            in case set_uuid_inputs path_append_uuid uuid self1 (required_inputs self1) of
                 Inl e \<Rightarrow> Inl e
               | Inr (inputs', self2) \<Rightarrow>
                   Inr (self2\<lparr>required_inputs := inputs',
                              provided_outputs :=
                                map (\<lambda>output_path. path_append_uuid output_path uuid)
                                    (provided_outputs self2)\<rparr>)))"

section \<open>Examples and conditions for layers.py\<close>

text \<open>
  The fatal outputs of the aggregation: an output that is not a
  \<^verbatim>\<open>CalculationLayerResult\<close>, and a result whose \<^verbatim>\<open>property_id\<close> matches more than
  one queued property.
\<close>

definition is_fatal :: "returned_output \<Rightarrow> server_request \<Rightarrow> bool" where
  "is_fatal out req =
     (case out of
        PyNone \<Rightarrow> False
      | OtherObject _ \<Rightarrow> True
      | LayerResult r \<Rightarrow>
          1 < length (filter (\<lambda>x. Some (prop_id x) = property_id r) (queued_properties req)))"

text \<open>A storage backend that stores everything, and a request with three properties.\<close>

definition accept_store :: "unit storage_backend" where
  "accept_store substance_id data_directory st = Inr st"

definition water_density :: physical_property where
  "water_density = \<lparr>prop_id = ''P1'', substance_identifier = ''water''\<rparr>"

definition methanol_density :: physical_property where
  "methanol_density = \<lparr>prop_id = ''P2'', substance_identifier = ''methanol''\<rparr>"

definition ethanol_density :: physical_property where
  "ethanol_density = \<lparr>prop_id = ''P3'', substance_identifier = ''ethanol''\<rparr>"

definition fresh_state :: "physical_property list \<Rightarrow> unit layer_state" where
  "fresh_state queue =
     \<lparr>request = \<lparr>request_id = ''request'', force_field_id = ''smirnoff'',
                 queued_properties = queue, estimated_properties = Map.empty,
                 unsuccessful_properties = Map.empty, exceptions = []\<rparr>,
      files = Map.empty, storage = (), callbacks = []\<rparr>"

definition success_for :: "physical_property \<Rightarrow> calculation_layer_result" where
  "success_for p =
     \<lparr>property_id = Some (prop_id p), calculated_property = Some p, exception = None,
      data_directories_to_store = Some []\<rparr>"

definition exception_for :: "physical_property \<Rightarrow> calculation_layer_result" where
  "exception_for p =
     \<lparr>property_id = Some (prop_id p), calculated_property = Some p,
      exception = Some (ReportedException ''failed''), data_directories_to_store = Some []\<rparr>"

definition surrogate_layer :: "nat py_class" where
  "surrogate_layer = PyClass ''SurrogateLayer'' 0"

definition simulation_layer :: "nat py_class" where
  "simulation_layer = PyClass ''SimulationLayer'' 1"

section \<open>Examples and conditions for protocols.py\<close>

text \<open>
  A protocol class with the integer and string inputs of \<^verbatim>\<open>RunOpenMMSimulation\<close>:
  \<^verbatim>\<open>steps\<close> (greatest value), \<^verbatim>\<open>output_frequency\<close> (smallest value),
  \<^verbatim>\<open>input_coordinate_file\<close> and the inherited \<^verbatim>\<open>allow_merging\<close> (exactly equal), and
  the output \<^verbatim>\<open>output_coordinate_file\<close>, whose descriptor has no merge behaviour.
\<close>

definition simulation_class :: protocol_class where
  "simulation_class =
     \<lparr>type_name = ''RunOpenMMSimulation'',
      base_names = [''BaseProtocol'', ''object''],
      class_attributes =
        [''allow_merging'' \<mapsto> Some ExactlyEqual,
         ''steps'' \<mapsto> Some GreatestValue,
         ''output_frequency'' \<mapsto> Some SmallestValue,
         ''input_coordinate_file'' \<mapsto> Some ExactlyEqual,
         ''output_coordinate_file'' \<mapsto> None],
      input_attributes = [''steps'', ''output_frequency'', ''input_coordinate_file'', ''allow_merging''],
      output_attributes = [''output_coordinate_file'']\<rparr>"

text \<open>A subclass of it that declares no inputs or outputs of its own.\<close>

definition restart_class :: protocol_class where
  "restart_class =
     simulation_class\<lparr>type_name := ''RestartSimulation'',
                       base_names := [''RunOpenMMSimulation'', ''BaseProtocol'', ''object'']\<rparr>"

text \<open>The constructor of the class: \<^verbatim>\<open>BaseProtocol.__init__\<close>, then the defaults of the
  inputs and outputs.\<close>

definition simulation_init :: "protocol_class \<Rightarrow> string \<Rightarrow> protocol" where
  "simulation_init cls new_id =
     (let self = BaseProtocol_init cls new_id
      in self\<lparr>attributes := (attributes self)
           (''steps'' \<mapsto> IntValue 1000,
            ''output_frequency'' \<mapsto> IntValue 1000,
            ''input_coordinate_file'' \<mapsto> NoneValue,
            ''output_coordinate_file'' \<mapsto> NoneValue)\<rparr>)"

text \<open>The same protocol with \<^verbatim>\<open>steps\<close> and \<^verbatim>\<open>output_frequency\<close> set.\<close>

definition simulation_with :: "protocol_class \<Rightarrow> string \<Rightarrow> int \<Rightarrow> int \<Rightarrow> protocol" where
  "simulation_with cls new_id steps frequency =
     (let self = simulation_init cls new_id
      in self\<lparr>attributes := (attributes self)
           (''steps'' \<mapsto> IntValue steps, ''output_frequency'' \<mapsto> IntValue frequency)\<rparr>)"

text \<open>Helpers that put the tag in front of an id, for \<^verbatim>\<open>set_uuid\<close>.\<close>

definition prepend_uuid :: "string \<Rightarrow> string \<Rightarrow> string" where
  "prepend_uuid some_id uuid = uuid @ ''|'' @ some_id"

definition path_prepend_uuid :: "protocol_path \<Rightarrow> string \<Rightarrow> protocol_path" where
  "path_prepend_uuid p uuid = p\<lparr>protocol_ids := map (\<lambda>i. prepend_uuid i uuid) (protocol_ids p)\<rparr>"








lemmas example_defs = accept_store_def water_density_def methanol_density_def ethanol_density_def
  fresh_state_def success_for_def exception_for_def

section \<open>layers.py: the registry\<close>

text \<open>
  Claim C8. Registering a class whose name is already a key of \<open>available_layers\<close>
  raises \<^verbatim>\<open>ValueError\<close> and leaves the registry as it was; registering a class under a
  name that is not yet a key returns the class, stores it under its name and changes no
  other key.
\<close>

theorem register_calculation_layer_duplicate_or_fresh:
  "(cls_name cls \<in> dom available_layers \<longrightarrow>
      (\<exists>msg. fst (register_calculation_layer cls available_layers) = Inl (ValueError msg))
      \<and> snd (register_calculation_layer cls available_layers) = available_layers)
   \<and> (cls_name cls \<notin> dom available_layers \<longrightarrow>
      fst (register_calculation_layer cls available_layers) = Inr cls
      \<and> snd (register_calculation_layer cls available_layers) (cls_name cls) = Some cls
      \<and> (\<forall>n. n \<noteq> cls_name cls \<longrightarrow>
            snd (register_calculation_layer cls available_layers) n = available_layers n))"
  by (simp add: register_calculation_layer_def)

theorem register_calculation_layer_witness:
  "fst (register_calculation_layer surrogate_layer [''SurrogateLayer'' \<mapsto> surrogate_layer])
     = Inl (ValueError ''The SurrogateLayer layer is already registered.'')
   \<and> snd (register_calculation_layer surrogate_layer [''SurrogateLayer'' \<mapsto> surrogate_layer])
     = [''SurrogateLayer'' \<mapsto> surrogate_layer]
   \<and> fst (register_calculation_layer simulation_layer [''SurrogateLayer'' \<mapsto> surrogate_layer])
     = Inr simulation_layer
   \<and> snd (register_calculation_layer simulation_layer [''SurrogateLayer'' \<mapsto> surrogate_layer])
       ''SimulationLayer'' = Some simulation_layer"
proof -
  have a: "cls_name surrogate_layer \<in> dom [''SurrogateLayer'' \<mapsto> surrogate_layer]"
    by (simp add: surrogate_layer_def)
  have b: "cls_name simulation_layer \<notin> dom [''SurrogateLayer'' \<mapsto> surrogate_layer]"
    by (simp add: simulation_layer_def)
  have n: "cls_name simulation_layer = ''SimulationLayer''"
    by (simp add: simulation_layer_def)
  have c: "fst (register_calculation_layer surrogate_layer [''SurrogateLayer'' \<mapsto> surrogate_layer])
     = Inl (ValueError ''The SurrogateLayer layer is already registered.'')"
    by (simp add: register_calculation_layer_def surrogate_layer_def)
  note dup = register_calculation_layer_duplicate_or_fresh[of surrogate_layer
        "[''SurrogateLayer'' \<mapsto> surrogate_layer]", THEN conjunct1, rule_format, OF a]
  note fresh = register_calculation_layer_duplicate_or_fresh[of simulation_layer
        "[''SurrogateLayer'' \<mapsto> surrogate_layer]", THEN conjunct2, rule_format, OF b]
  from dup have d: "snd (register_calculation_layer surrogate_layer [''SurrogateLayer'' \<mapsto> surrogate_layer])
     = [''SurrogateLayer'' \<mapsto> surrogate_layer]" by (rule conjunct2)
  from fresh have e: "fst (register_calculation_layer simulation_layer [''SurrogateLayer'' \<mapsto> surrogate_layer])
     = Inr simulation_layer" by (rule conjunct1)
  from fresh have f: "snd (register_calculation_layer simulation_layer [''SurrogateLayer'' \<mapsto> surrogate_layer])
       (cls_name simulation_layer) = Some simulation_layer" by (rule conjunct2[THEN conjunct1])
  show ?thesis using c d e f[unfolded n] by (intro conjI)
qed

section \<open>layers.py: the aggregation of results\<close>

subsection \<open>Removing the matches from the queue\<close>

lemma remove_matches_gen:
  "\<forall>y \<in> set ys. \<not> P y \<Longrightarrow>
   remove_matches (filter P xs) (ys @ xs) = (None, ys @ filter (\<lambda>x. \<not> P x) xs)"
proof (induction xs arbitrary: ys)
  case Nil
  then show ?case by simp
next
  case (Cons x xs)
  show ?case
  proof (cases "P x")
    case True
    then have nin: "x \<notin> set ys" using Cons.prems by auto
    then have "remove1 x (ys @ x # xs) = ys @ xs" by (simp add: remove1_append)
    then show ?thesis using True Cons.IH[OF Cons.prems] by (simp add: list_remove_def)
  next
    case False
    then have "\<forall>y \<in> set (ys @ [x]). \<not> P y" using Cons.prems by auto
    from Cons.IH[OF this] False show ?thesis by simp
  qed
qed

lemma remove_matches_filter:
  "remove_matches (filter P xs) xs = (None, filter (\<lambda>x. \<not> P x) xs)"
  using remove_matches_gen[of "[]" P xs] by simp

subsection \<open>What the loop leaves alone\<close>

lemma callbacks_store_data_directory:
  "store_data_directory sb d s = (err, s') \<Longrightarrow> callbacks s' = callbacks s"
  by (auto simp: store_data_directory_def Let_def split: option.splits sum.splits)

lemma callbacks_store_data_directories:
  "store_data_directories sb ds s = (err, s') \<Longrightarrow> callbacks s' = callbacks s"
proof (induction ds arbitrary: s)
  case Nil
  then show ?case by simp
next
  case (Cons d ds)
  obtain e1 s1 where step: "store_data_directory sb d s = (e1, s1)" by (cases "store_data_directory sb d s")
  then have c1: "callbacks s1 = callbacks s" by (rule callbacks_store_data_directory)
  show ?case
  proof (cases e1)
    case None
    then show ?thesis using Cons.prems step Cons.IH[of s1] c1 by simp
  next
    case (Some e)
    then show ?thesis using Cons.prems step c1 by simp
  qed
qed

lemma callbacks_record_or_store:
  "record_or_store sb r s = (err, s') \<Longrightarrow> callbacks s' = callbacks s"
  by (auto simp: record_or_store_def split: option.splits if_splits
      dest: callbacks_store_data_directories)

lemma callbacks_process_output:
  "process_output sb out s = (err, s') \<Longrightarrow> callbacks s' = callbacks s"
  by (auto simp: process_output_def split: returned_output.splits option.splits prod.splits
      dest: callbacks_record_or_store)

lemma callbacks_process_outputs:
  "process_outputs sb outs s = (err, s') \<Longrightarrow> callbacks s' = callbacks s"
proof (induction outs arbitrary: s)
  case Nil
  then show ?case by simp
next
  case (Cons out outs)
  obtain e1 s1 where step: "process_output sb out s = (e1, s1)" by (cases "process_output sb out s")
  then have c1: "callbacks s1 = callbacks s" by (rule callbacks_process_output)
  show ?case
  proof (cases e1)
    case None
    then show ?thesis using Cons.prems step Cons.IH[of s1] c1 by simp
  next
    case (Some e)
    then show ?thesis using Cons.prems step c1 by simp
  qed
qed

lemma request_store_data_directory:
  "store_data_directory sb d s = (err, s') \<Longrightarrow> request s' = request s"
  by (auto simp: store_data_directory_def Let_def split: option.splits sum.splits)

lemma request_store_data_directories:
  "store_data_directories sb ds s = (err, s') \<Longrightarrow> request s' = request s"
proof (induction ds arbitrary: s)
  case Nil
  then show ?case by simp
next
  case (Cons d ds)
  obtain e1 s1 where step: "store_data_directory sb d s = (e1, s1)" by (cases "store_data_directory sb d s")
  then have c1: "request s1 = request s" by (rule request_store_data_directory)
  show ?case
  proof (cases e1)
    case None
    then show ?thesis using Cons.prems step Cons.IH[of s1] c1 by simp
  next
    case (Some e)
    then show ?thesis using Cons.prems step c1 by simp
  qed
qed

lemma queue_record_or_store:
  "record_or_store sb r s = (err, s') \<Longrightarrow>
     queued_properties (request s') = queued_properties (request s)
   \<and> estimated_properties (request s') = estimated_properties (request s)
   \<and> unsuccessful_properties (request s') = unsuccessful_properties (request s)"
  by (auto simp: record_or_store_def split: option.splits if_splits
      dest: request_store_data_directories)

lemma record_or_store_no_exception:
  assumes "exception r = None" and "record_or_store sb r s = (err, s1)"
  shows "request s1 = request s"
  using assms by (auto simp: record_or_store_def split: option.splits if_splits
      dest: request_store_data_directories)

subsection \<open>Matching and routing\<close>

lemma match_and_route_conflict:
  assumes "1 < length (filter (\<lambda>x. Some (prop_id x) = property_id r) (queued_properties req))"
  shows "match_and_route r req =
           (Some (ValueError (''A property id ('' @ str_of_id (property_id r) @ '') conflict occurred.'')),
            req\<lparr>queued_properties := filter (\<lambda>x. Some (prop_id x) \<noteq> property_id r) (queued_properties req)\<rparr>)"
  using assms by (simp add: match_and_route_def remove_matches_filter Let_def)

lemma match_and_route_single:
  assumes "length (filter (\<lambda>x. Some (prop_id x) = property_id r) (queued_properties req)) = 1"
      and "calculated_property r = Some c"
  shows "match_and_route r req =
           (None,
            if exception r = None
            then req\<lparr>queued_properties := filter (\<lambda>x. Some (prop_id x) \<noteq> property_id r) (queued_properties req),
                     estimated_properties := append_under (estimated_properties req) (substance_identifier c) c\<rparr>
            else req\<lparr>queued_properties := filter (\<lambda>x. Some (prop_id x) \<noteq> property_id r) (queued_properties req),
                     unsuccessful_properties := append_under (unsuccessful_properties req) (substance_identifier c) c\<rparr>)"
  using assms by (simp add: match_and_route_def remove_matches_filter Let_def)

subsection \<open>The loop and the guard\<close>

lemma process_outputs_append:
  "process_outputs sb (xs @ ys) s =
     (case process_outputs sb xs s of
        (Some e, s') \<Rightarrow> (Some e, s')
      | (None, s') \<Rightarrow> process_outputs sb ys s')"
  by (induction xs arbitrary: s) (auto split: prod.splits option.splits)

lemma process_output_fatal:
  assumes "is_fatal out (request s)"
  shows "\<exists>e s'. process_output sb out s = (Some e, s')"
proof (cases out)
  case PyNone
  then show ?thesis using assms by (simp add: is_fatal_def)
next
  case (OtherObject x)
  then show ?thesis by (simp add: process_output_def)
next
  case (LayerResult r)
  obtain e1 s1 where step: "record_or_store sb r s = (e1, s1)" by (cases "record_or_store sb r s")
  show ?thesis
  proof (cases e1)
    case (Some e)
    then show ?thesis using LayerResult step by (simp add: process_output_def)
  next
    case None
    have "queued_properties (request s1) = queued_properties (request s)"
      using queue_record_or_store[OF step] by simp
    then have "1 < length (filter (\<lambda>x. Some (prop_id x) = property_id r) (queued_properties (request s1)))"
      using assms LayerResult by (simp add: is_fatal_def)
    from match_and_route_conflict[OF this] show ?thesis
      using LayerResult step None by (simp add: process_output_def)
  qed
qed

lemma process_results_raise:
  assumes "process_outputs sb pre s = (None, s1)"
      and "process_output sb bad s1 = (Some e, s2)"
  shows "process_results sb (Inr (pre @ bad # post)) s =
           s2\<lparr>request := (request s2)\<lparr>exceptions := exceptions (request s2) @ [UnhandledInternalException e]\<rparr>,
              callbacks := callbacks s2 @
                [(request s2)\<lparr>exceptions := exceptions (request s2) @ [UnhandledInternalException e]\<rparr>]\<rparr>"
  using assms by (simp add: process_results_def try_body_def process_outputs_append)

text \<open>
  Claim C1, as amended. A fatal output (one that is not a \<^verbatim>\<open>CalculationLayerResult\<close>, or a
  result that matches more than one queued property) raises inside the loop, the guard
  around the whole loop records the exception in \<open>exceptions\<close> of the request, and the
  loop is not resumed: the outputs after the fatal one have no effect, so the call ends
  in the same state as with the list cut after the fatal output.
\<close>

theorem fault_stops_aggregation:
  assumes "process_outputs sb pre s = (None, s1)"
      and "is_fatal bad (request s1)"
  shows "\<exists>e s2. process_output sb bad s1 = (Some e, s2)
           \<and> exceptions (request (process_results sb (Inr (pre @ bad # post)) s)) =
               exceptions (request s2) @ [UnhandledInternalException e]
           \<and> process_results sb (Inr (pre @ bad # post)) s = process_results sb (Inr (pre @ [bad])) s"
proof -
  obtain e s2 where bad: "process_output sb bad s1 = (Some e, s2)"
    using process_output_fatal[OF assms(2)] by blast
  have a: "process_results sb (Inr (pre @ bad # post)) s = process_results sb (Inr (pre @ [bad])) s"
    using process_results_raise[OF assms(1) bad, of post] process_results_raise[OF assms(1) bad, of "[]"]
    by simp
  have b: "exceptions (request (process_results sb (Inr (pre @ bad # post)) s)) =
               exceptions (request s2) @ [UnhandledInternalException e]"
    using process_results_raise[OF assms(1) bad, of post] by simp
  show ?thesis using a b bad by blast
qed

theorem fault_stops_aggregation_witness:
  "process_results accept_store
       (Inr ([] @ OtherObject ''junk'' # [LayerResult (success_for water_density)]))
       (fresh_state [water_density])
   = process_results accept_store (Inr ([] @ [OtherObject ''junk''])) (fresh_state [water_density])"
proof -
  have h1: "process_outputs accept_store [] (fresh_state [water_density]) = (None, fresh_state [water_density])"
    by simp
  have h2: "is_fatal (OtherObject ''junk'') (request (fresh_state [water_density]))"
    by (simp add: is_fatal_def)
  from fault_stops_aggregation[OF h1 h2] show ?thesis by blast
qed

text \<open>
  The claim as stated fails: with the queue holding one property, the output list
  \<open>[junk, success for that property]\<close> leaves the property queued and not estimated,
  while the successful result alone takes it from the queue and routes it.
\<close>

theorem fault_counterexample:
  "queued_properties (request (process_results accept_store
       (Inr [OtherObject ''junk'', LayerResult (success_for water_density)])
       (fresh_state [water_density]))) = [water_density]
   \<and> estimated_properties (request (process_results accept_store
       (Inr [OtherObject ''junk'', LayerResult (success_for water_density)])
       (fresh_state [water_density]))) ''water'' = None
   \<and> queued_properties (request (process_results accept_store
       (Inr [LayerResult (success_for water_density)])
       (fresh_state [water_density]))) = []
   \<and> estimated_properties (request (process_results accept_store
       (Inr [LayerResult (success_for water_density)])
       (fresh_state [water_density]))) ''water'' = Some [water_density]"
proof -
  have bad: "process_output accept_store (OtherObject ''junk'') (fresh_state [water_density])
           = (Some (ValueError ''The output of the calculation was not a CalculationLayerResult as expected.''),
              fresh_state [water_density])"
    by (simp add: process_output_def)
  have nil: "process_outputs accept_store [] (fresh_state [water_density]) = (None, fresh_state [water_density])"
    by simp
  have a: "request (process_results accept_store
       (Inr [OtherObject ''junk'', LayerResult (success_for water_density)]) (fresh_state [water_density]))
       = (request (fresh_state [water_density]))\<lparr>exceptions := [UnhandledInternalException
            (ValueError ''The output of the calculation was not a CalculationLayerResult as expected.'')]\<rparr>"
    using process_results_raise[OF nil bad, of "[LayerResult (success_for water_density)]"]
    by (simp add: fresh_state_def)
  have st: "record_or_store accept_store (success_for water_density) (fresh_state [water_density])
          = (None, fresh_state [water_density])"
    by (simp add: record_or_store_def success_for_def)
  have m: "length (filter (\<lambda>x. Some (prop_id x) = property_id (success_for water_density))
              (queued_properties (request (fresh_state [water_density])))) = 1"
    by (simp add: success_for_def fresh_state_def)
  have mr: "match_and_route (success_for water_density) (request (fresh_state [water_density]))
          = (None, (request (fresh_state [water_density]))\<lparr>queued_properties := [],
                estimated_properties := [''water'' \<mapsto> [water_density]]\<rparr>)"
    using match_and_route_single[OF m, of water_density]
    by (simp add: success_for_def fresh_state_def append_under_def water_density_def)
  have b: "request (process_results accept_store
       (Inr [LayerResult (success_for water_density)]) (fresh_state [water_density]))
       = (request (fresh_state [water_density]))\<lparr>queued_properties := [],
                estimated_properties := [''water'' \<mapsto> [water_density]]\<rparr>"
    using st mr by (simp add: process_results_def try_body_def process_output_def)
  show ?thesis by (simp add: a b) (simp add: fresh_state_def)
qed

text \<open>
  Claim C2. One call of \<^verbatim>\<open>_process_results\<close> calls the callback exactly once, with the
  request as the call leaves it, whether the guarded body raised or not; an exception
  \<open>e\<close> raised in the body is not propagated but appended to \<open>exceptions\<close> of the request,
  wrapped into the structured exception built from \<open>e\<close>.
\<close>

theorem process_results_callback_once:
  "callbacks (process_results sb rf s) = callbacks s @ [request (process_results sb rf s)]
   \<and> (case try_body sb rf s of
        (None, s1) \<Rightarrow> request (process_results sb rf s) = request s1
      | (Some e, s1) \<Rightarrow>
          request (process_results sb rf s) =
            (request s1)\<lparr>exceptions := exceptions (request s1) @ [UnhandledInternalException e]\<rparr>)"
proof -
  obtain err s1 where body: "try_body sb rf s = (err, s1)" by (cases "try_body sb rf s")
  have "callbacks s1 = callbacks s"
  proof (cases rf)
    case (Inl e)
    then show ?thesis using body by (simp add: try_body_def)
  next
    case (Inr results)
    then show ?thesis using body callbacks_process_outputs[of sb results s err s1] by (simp add: try_body_def)
  qed
  then show ?thesis using body by (cases err) (simp_all add: process_results_def)
qed

theorem process_results_callback_once_witness:
  "callbacks (process_results accept_store (Inr [OtherObject ''junk'']) (fresh_state [water_density]))
     = [request (process_results accept_store (Inr [OtherObject ''junk'']) (fresh_state [water_density]))]
   \<and> exceptions (request (process_results accept_store (Inr [OtherObject ''junk'']) (fresh_state [water_density])))
     = [UnhandledInternalException
          (ValueError ''The output of the calculation was not a CalculationLayerResult as expected.'')]"
proof -
  have b: "try_body accept_store (Inr [OtherObject ''junk'']) (fresh_state [water_density])
        = (Some (ValueError ''The output of the calculation was not a CalculationLayerResult as expected.''),
           fresh_state [water_density])"
    by (simp add: try_body_def process_output_def)
  show ?thesis
    using process_results_callback_once[of accept_store "Inr [OtherObject ''junk'']" "fresh_state [water_density]"]
    by (simp add: b) (simp add: fresh_state_def)
qed

text \<open>
  Claim C3. With \<open>[P1, P2, P3]\<close> queued (pairwise different ids) and nothing recorded yet,
  the outputs \<open>[success for P1, exception for P2 with a property object, None]\<close> raise
  nothing and leave \<open>[P3]\<close> queued, one entry under P1's substance in
  \<open>estimated_properties\<close>, one entry under P2's substance in \<open>unsuccessful_properties\<close>
  and one exception. The data directories of the successful result are arbitrary, as
  long as storing them raises nothing.
\<close>

theorem aggregation_scenario:
  assumes ids: "prop_id P1 \<noteq> prop_id P2 \<and> prop_id P1 \<noteq> prop_id P3 \<and> prop_id P2 \<noteq> prop_id P3"
      and req: "queued_properties (request s) = [P1, P2, P3]
                \<and> estimated_properties (request s) = Map.empty
                \<and> unsuccessful_properties (request s) = Map.empty
                \<and> exceptions (request s) = []"
      and r1: "property_id r1 = Some (prop_id P1) \<and> calculated_property r1 = Some c1
                \<and> exception r1 = None \<and> substance_identifier c1 = substance_identifier P1"
      and store: "fst (record_or_store sb r1 s) = None"
      and r2: "property_id r2 = Some (prop_id P2) \<and> calculated_property r2 = Some c2
                \<and> exception r2 = Some ex \<and> substance_identifier c2 = substance_identifier P2"
  shows "fst (try_body sb (Inr [LayerResult r1, LayerResult r2, PyNone]) s) = None
       \<and> queued_properties (request (process_results sb (Inr [LayerResult r1, LayerResult r2, PyNone]) s)) = [P3]
       \<and> estimated_properties (request (process_results sb (Inr [LayerResult r1, LayerResult r2, PyNone]) s))
           = [substance_identifier P1 \<mapsto> [c1]]
       \<and> unsuccessful_properties (request (process_results sb (Inr [LayerResult r1, LayerResult r2, PyNone]) s))
           = [substance_identifier P2 \<mapsto> [c2]]
       \<and> exceptions (request (process_results sb (Inr [LayerResult r1, LayerResult r2, PyNone]) s)) = [ex]"
proof -
  obtain s1 where st1: "record_or_store sb r1 s = (None, s1)"
    using store by (cases "record_or_store sb r1 s") auto
  have rq1: "request s1 = request s"
    using record_or_store_no_exception[OF _ st1] r1 by simp
  have m1: "length (filter (\<lambda>x. Some (prop_id x) = property_id r1) (queued_properties (request s1))) = 1"
    using rq1 req r1 ids by auto
  define q1 where "q1 = (request s)\<lparr>queued_properties := [P2, P3],
                     estimated_properties := [substance_identifier P1 \<mapsto> [c1]]\<rparr>"
  have mr1: "match_and_route r1 (request s1) = (None, q1)"
    using match_and_route_single[OF m1, of c1] r1 rq1 req ids
    by (auto simp: q1_def append_under_def)
  have po1: "process_output sb (LayerResult r1) s = (None, s1\<lparr>request := q1\<rparr>)"
    using st1 mr1 by (simp add: process_output_def)
  define s2 where "s2 = s1\<lparr>request := q1\<lparr>exceptions := [ex]\<rparr>\<rparr>"
  have st2: "record_or_store sb r2 (s1\<lparr>request := q1\<rparr>) = (None, s2)"
    using r2 req by (simp add: record_or_store_def s2_def q1_def)
  have m2: "length (filter (\<lambda>x. Some (prop_id x) = property_id r2) (queued_properties (request s2))) = 1"
    using r2 ids by (auto simp: s2_def q1_def)
  define q2 where "q2 = (request s)\<lparr>queued_properties := [P3],
                     estimated_properties := [substance_identifier P1 \<mapsto> [c1]],
                     unsuccessful_properties := [substance_identifier P2 \<mapsto> [c2]],
                     exceptions := [ex]\<rparr>"
  have mr2: "match_and_route r2 (request s2) = (None, q2)"
    using match_and_route_single[OF m2, of c2] r2 req ids
    by (auto simp: q2_def s2_def q1_def append_under_def)
  have po2: "process_output sb (LayerResult r2) (s1\<lparr>request := q1\<rparr>) = (None, s2\<lparr>request := q2\<rparr>)"
    using st2 mr2 by (simp add: process_output_def)
  have po3: "process_output sb PyNone (s2\<lparr>request := q2\<rparr>) = (None, s2\<lparr>request := q2\<rparr>)"
    by (simp add: process_output_def)
  have body: "try_body sb (Inr [LayerResult r1, LayerResult r2, PyNone]) s = (None, s2\<lparr>request := q2\<rparr>)"
    using po1 po2 po3 by (simp add: try_body_def)
  then have "request (process_results sb (Inr [LayerResult r1, LayerResult r2, PyNone]) s) = q2"
    by (simp add: process_results_def)
  then show ?thesis using body by (simp add: q2_def)
qed

theorem aggregation_scenario_witness:
  "fst (try_body accept_store
         (Inr [LayerResult (success_for water_density), LayerResult (exception_for methanol_density), PyNone])
         (fresh_state [water_density, methanol_density, ethanol_density])) = None
   \<and> queued_properties (request (process_results accept_store
         (Inr [LayerResult (success_for water_density), LayerResult (exception_for methanol_density), PyNone])
         (fresh_state [water_density, methanol_density, ethanol_density]))) = [ethanol_density]
   \<and> estimated_properties (request (process_results accept_store
         (Inr [LayerResult (success_for water_density), LayerResult (exception_for methanol_density), PyNone])
         (fresh_state [water_density, methanol_density, ethanol_density])))
       = [substance_identifier water_density \<mapsto> [water_density]]
   \<and> unsuccessful_properties (request (process_results accept_store
         (Inr [LayerResult (success_for water_density), LayerResult (exception_for methanol_density), PyNone])
         (fresh_state [water_density, methanol_density, ethanol_density])))
       = [substance_identifier methanol_density \<mapsto> [methanol_density]]
   \<and> exceptions (request (process_results accept_store
         (Inr [LayerResult (success_for water_density), LayerResult (exception_for methanol_density), PyNone])
         (fresh_state [water_density, methanol_density, ethanol_density]))) = [ReportedException ''failed'']"
proof -
  have ids: "prop_id water_density \<noteq> prop_id methanol_density
      \<and> prop_id water_density \<noteq> prop_id ethanol_density
      \<and> prop_id methanol_density \<noteq> prop_id ethanol_density"
    by (simp add: example_defs)
  have req: "queued_properties (request (fresh_state [water_density, methanol_density, ethanol_density]))
                = [water_density, methanol_density, ethanol_density]
      \<and> estimated_properties (request (fresh_state [water_density, methanol_density, ethanol_density])) = Map.empty
      \<and> unsuccessful_properties (request (fresh_state [water_density, methanol_density, ethanol_density])) = Map.empty
      \<and> exceptions (request (fresh_state [water_density, methanol_density, ethanol_density])) = []"
    by (simp add: fresh_state_def)
  have r1: "property_id (success_for water_density) = Some (prop_id water_density)
      \<and> calculated_property (success_for water_density) = Some water_density
      \<and> exception (success_for water_density) = None
      \<and> substance_identifier water_density = substance_identifier water_density"
    by (simp add: success_for_def)
  have store: "fst (record_or_store accept_store (success_for water_density)
                 (fresh_state [water_density, methanol_density, ethanol_density])) = None"
    by (simp add: record_or_store_def success_for_def)
  have r2: "property_id (exception_for methanol_density) = Some (prop_id methanol_density)
      \<and> calculated_property (exception_for methanol_density) = Some methanol_density
      \<and> exception (exception_for methanol_density) = Some (ReportedException ''failed'')
      \<and> substance_identifier methanol_density = substance_identifier methanol_density"
    by (simp add: exception_for_def)
  show ?thesis by (rule aggregation_scenario[OF ids req r1 store r2])
qed

text \<open>
  Claim C10. When a result matches more than one queued property, every matching entry
  is removed from the queue before the conflict is raised; the guard does not restore
  them, and the result is routed neither to \<open>estimated_properties\<close> nor to
  \<open>unsuccessful_properties\<close>.
\<close>

theorem conflict_drops_matching_entries:
  assumes "1 < length (filter (\<lambda>x. Some (prop_id x) = property_id r) (queued_properties (request s)))"
      and "record_or_store sb r s = (None, s1)"
  shows "process_output sb (LayerResult r) s =
           (Some (ValueError (''A property id ('' @ str_of_id (property_id r) @ '') conflict occurred.'')),
            s1\<lparr>request := (request s1)\<lparr>queued_properties :=
                 filter (\<lambda>x. Some (prop_id x) \<noteq> property_id r) (queued_properties (request s))\<rparr>\<rparr>)
       \<and> queued_properties (request (process_results sb (Inr (LayerResult r # post)) s)) =
           filter (\<lambda>x. Some (prop_id x) \<noteq> property_id r) (queued_properties (request s))
       \<and> estimated_properties (request (process_results sb (Inr (LayerResult r # post)) s)) =
           estimated_properties (request s)
       \<and> unsuccessful_properties (request (process_results sb (Inr (LayerResult r # post)) s)) =
           unsuccessful_properties (request s)
       \<and> exceptions (request (process_results sb (Inr (LayerResult r # post)) s)) =
           exceptions (request s1) @ [UnhandledInternalException
             (ValueError (''A property id ('' @ str_of_id (property_id r) @ '') conflict occurred.''))]"
proof -
  have same: "queued_properties (request s1) = queued_properties (request s)
     \<and> estimated_properties (request s1) = estimated_properties (request s)
     \<and> unsuccessful_properties (request s1) = unsuccessful_properties (request s)"
    using queue_record_or_store[OF assms(2)] .
  then have "1 < length (filter (\<lambda>x. Some (prop_id x) = property_id r) (queued_properties (request s1)))"
    using assms(1) by simp
  from match_and_route_conflict[OF this]
  have po: "process_output sb (LayerResult r) s =
           (Some (ValueError (''A property id ('' @ str_of_id (property_id r) @ '') conflict occurred.'')),
            s1\<lparr>request := (request s1)\<lparr>queued_properties :=
                 filter (\<lambda>x. Some (prop_id x) \<noteq> property_id r) (queued_properties (request s))\<rparr>\<rparr>)"
    using assms(2) same by (simp add: process_output_def)
  have "process_outputs sb [] s = (None, s)" by simp
  from process_results_raise[OF this po, of post] show ?thesis using po same by simp
qed

theorem conflict_drops_matching_entries_witness:
  "queued_properties (request (process_results accept_store
       (Inr (LayerResult (success_for water_density) # [LayerResult (success_for methanol_density)]))
       (fresh_state [water_density, methanol_density, water_density]))) = [methanol_density]
   \<and> estimated_properties (request (process_results accept_store
       (Inr (LayerResult (success_for water_density) # [LayerResult (success_for methanol_density)]))
       (fresh_state [water_density, methanol_density, water_density]))) = Map.empty"
proof -
  have h1: "1 < length (filter (\<lambda>x. Some (prop_id x) = property_id (success_for water_density))
              (queued_properties (request (fresh_state [water_density, methanol_density, water_density]))))"
    by (simp add: example_defs)
  have h2: "record_or_store accept_store (success_for water_density)
              (fresh_state [water_density, methanol_density, water_density])
            = (None, fresh_state [water_density, methanol_density, water_density])"
    by (simp add: record_or_store_def success_for_def)
  show ?thesis
    using conflict_drops_matching_entries[OF h1 h2, of "[LayerResult (success_for methanol_density)]"]
    by (simp add: example_defs)
qed

lemmas protocol_example_defs = simulation_class_def restart_class_def simulation_init_def
  simulation_with_def BaseProtocol_init_def ProtocolPath_def

section \<open>protocols.py: reading and writing values\<close>




section \<open>protocols.py: set_uuid\<close>

text \<open>\<^verbatim>\<open>s.find(sub) >= 0\<close> says that \<open>sub\<close> occurs in \<open>s\<close>.\<close>

lemma find_from_contains:
  "0 \<le> i \<Longrightarrow> (0 \<le> find_from s sub i) = (\<exists>a b. s = a @ sub @ b)"
proof (induction s arbitrary: i)
  case Nil
  then show ?case by auto
next
  case (Cons c cs)
  show ?case
  proof (cases "take (length sub) (c # cs) = sub")
    case True
    then have "c # cs = [] @ sub @ drop (length sub) (c # cs)"
      by (metis append_Nil append_take_drop_id)
    then have "\<exists>a b. c # cs = a @ sub @ b" by blast
    then show ?thesis using True Cons.prems by simp
  next
    case False
    have step: "(0 \<le> find_from cs sub (i + 1)) = (\<exists>a b. cs = a @ sub @ b)"
      using Cons.IH[of "i + 1"] Cons.prems by simp
    have "(\<exists>a b. c # cs = a @ sub @ b) = (\<exists>a b. cs = a @ sub @ b)"
    proof
      assume "\<exists>a b. c # cs = a @ sub @ b"
      then obtain a b where ab: "c # cs = a @ sub @ b" by blast
      show "\<exists>a b. cs = a @ sub @ b"
      proof (cases a)
        case Nil
        then have "take (length sub) (c # cs) = sub" using ab by simp
        then show ?thesis using False by simp
      next
        case (Cons x a')
        then have "cs = a' @ sub @ b" using ab by simp
        then show ?thesis by blast
      qed
    next
      assume "\<exists>a b. cs = a @ sub @ b"
      then obtain a b where "cs = a @ sub @ b" by blast
      then have "c # cs = (c # a) @ sub @ b" by simp
      then show "\<exists>a b. c # cs = a @ sub @ b" by blast
    qed
    then show ?thesis using False step by simp
  qed
qed

lemma py_find_contains: "(0 \<le> py_find s sub) = (\<exists>a b. s = a @ sub @ b)"
  by (simp add: py_find_def find_from_contains)

text \<open>The loop over the inputs does not change the id, so the id after \<^verbatim>\<open>set_uuid\<close> is
  the old one when it held the tag and the tagged one otherwise.\<close>

lemma set_uuid_inputs_id:
  "set_uuid_inputs pau uuid self paths = Inr (paths', self') \<Longrightarrow> protocol_id self' = protocol_id self"
proof (induction paths arbitrary: self paths')
  case Nil
  then show ?case by simp
next
  case (Cons p ps)
  from Cons.prems obtain v where gv: "get_value self (pau p uuid) = Inr v"
    by (auto simp: Let_def split: sum.splits)
  define mid where "mid = (case v of
        PathValue q \<Rightarrow> self\<lparr>attributes := (attributes self)(property_name (pau p uuid) \<mapsto> PathValue (pau q uuid))\<rparr>
      | _ \<Rightarrow> self)"
  have idm: "protocol_id mid = protocol_id self"
    by (cases v) (simp_all add: mid_def)
  from Cons.prems gv obtain ps' where "set_uuid_inputs pau uuid mid ps = Inr (ps', self')"
    by (auto simp: Let_def mid_def split: sum.splits)
  from Cons.IH[OF this] idm show ?case by simp
qed

lemma set_uuid_id:
  assumes "set_uuid au pau self uuid = Inr self'"
  shows "protocol_id self' = (if 0 \<le> py_find (protocol_id self) uuid then protocol_id self
                              else au (protocol_id self) uuid)"
proof (cases "0 \<le> py_find (protocol_id self) uuid")
  case True
  then show ?thesis using assms by (simp add: set_uuid_def)
next
  case False
  from assms False obtain inputs' self2 where
    loop: "set_uuid_inputs pau uuid (self\<lparr>protocol_id := au (protocol_id self) uuid\<rparr>)
             (required_inputs self) = Inr (inputs', self2)"
    and res: "self' = self2\<lparr>required_inputs := inputs',
                 provided_outputs := map (\<lambda>output_path. pau output_path uuid) (provided_outputs self2)\<rparr>"
    by (auto simp: set_uuid_def Let_def split: sum.splits)
  from set_uuid_inputs_id[OF loop] res False show ?thesis by simp
qed

text \<open>
  Claim C9. When the id of the protocol already contains the tag, \<^verbatim>\<open>set_uuid\<close> returns
  at once and leaves the protocol (its id, its input paths and values, its output paths)
  as it was. Hence a second \<^verbatim>\<open>set_uuid\<close> with the same tag changes nothing, for any
  \<^verbatim>\<open>graph.append_uuid\<close> whose result contains the tag.
\<close>

theorem set_uuid_idempotent:
  "(0 \<le> py_find (protocol_id self) uuid \<longrightarrow> set_uuid au pau self uuid = Inr self)
   \<and> (0 \<le> py_find (au (protocol_id self) uuid) uuid \<and> set_uuid au pau self uuid = Inr self'
        \<longrightarrow> set_uuid au pau self' uuid = Inr self')"
proof (intro conjI impI)
  assume "0 \<le> py_find (protocol_id self) uuid"
  then show "set_uuid au pau self uuid = Inr self" by (simp add: set_uuid_def)
next
  assume a: "0 \<le> py_find (au (protocol_id self) uuid) uuid \<and> set_uuid au pau self uuid = Inr self'"
  then have "0 \<le> py_find (protocol_id self') uuid"
    using set_uuid_id[of au pau self uuid self'] by (simp split: if_splits)
  then show "set_uuid au pau self' uuid = Inr self'" by (simp add: set_uuid_def)
qed

lemma example_find_absent: "py_find ''npt_production'' ''job1'' = - 1"
  by (simp add: py_find_def)

lemma example_find_present: "py_find ''job1|npt_production'' ''job1'' = 0"
  by (simp add: py_find_def)

lemma example_set_uuid:
  "set_uuid prepend_uuid path_prepend_uuid (simulation_init simulation_class ''npt_production'') ''job1''
     = Inr (simulation_init simulation_class ''job1|npt_production'')"
  by (simp add: set_uuid_def example_find_absent protocol_example_defs prepend_uuid_def
      path_prepend_uuid_def get_value_def start_protocol_def Let_def)

theorem set_uuid_idempotent_witness:
  "set_uuid prepend_uuid path_prepend_uuid (simulation_init simulation_class ''npt_production'') ''job1''
     = Inr (simulation_init simulation_class ''job1|npt_production'')
   \<and> set_uuid prepend_uuid path_prepend_uuid (simulation_init simulation_class ''job1|npt_production'') ''job1''
     = Inr (simulation_init simulation_class ''job1|npt_production'')"
proof -
  have h: "0 \<le> py_find (prepend_uuid (protocol_id (simulation_init simulation_class ''npt_production'')) ''job1'') ''job1''
      \<and> set_uuid prepend_uuid path_prepend_uuid (simulation_init simulation_class ''npt_production'') ''job1''
           = Inr (simulation_init simulation_class ''job1|npt_production'')"
    using example_set_uuid
    by (simp add: protocol_example_defs prepend_uuid_def example_find_present Let_def)
  note twice = set_uuid_idempotent[of "simulation_init simulation_class ''npt_production''" "''job1''"
      prepend_uuid path_prepend_uuid "simulation_init simulation_class ''job1|npt_production''",
      THEN conjunct2, rule_format, OF h]
  show ?thesis using example_set_uuid twice by (intro conjI)
qed

section \<open>protocols.py: can_merge\<close>

subsection \<open>The example protocols, field by field\<close>

lemma example_inputs:
  "required_inputs (simulation_with cls new_id n f) =
     [ProtocolPath ''steps'', ProtocolPath ''output_frequency'',
      ProtocolPath ''input_coordinate_file'', ProtocolPath ''allow_merging'']"
  if "input_attributes cls = [''steps'', ''output_frequency'', ''input_coordinate_file'', ''allow_merging'']"
  using that by (simp add: simulation_with_def simulation_init_def BaseProtocol_init_def Let_def)

lemma example_attributes:
  "attributes (simulation_with cls new_id n f) =
     [''allow_merging'' \<mapsto> BoolValue True, ''directory'' \<mapsto> NoneValue,
      ''steps'' \<mapsto> IntValue 1000, ''output_frequency'' \<mapsto> IntValue 1000,
      ''input_coordinate_file'' \<mapsto> NoneValue, ''output_coordinate_file'' \<mapsto> NoneValue,
      ''steps'' \<mapsto> IntValue n, ''output_frequency'' \<mapsto> IntValue f]"
  by (simp add: simulation_with_def simulation_init_def BaseProtocol_init_def Let_def)

lemma example_type: "protocol_type (simulation_with cls new_id n f) = cls"
  by (simp add: simulation_with_def simulation_init_def BaseProtocol_init_def Let_def)

lemma example_id: "protocol_id (simulation_with cls new_id n f) = new_id"
  by (simp add: simulation_with_def simulation_init_def BaseProtocol_init_def Let_def)

lemma example_outputs:
  "provided_outputs (simulation_with cls new_id n f) = map ProtocolPath (output_attributes cls)"
  by (simp add: simulation_with_def simulation_init_def BaseProtocol_init_def Let_def)

lemma example_class_inputs:
  "input_attributes simulation_class = [''steps'', ''output_frequency'', ''input_coordinate_file'', ''allow_merging'']"
  "input_attributes restart_class = [''steps'', ''output_frequency'', ''input_coordinate_file'', ''allow_merging'']"
  by (simp_all add: simulation_class_def restart_class_def)

lemma example_class_attributes:
  "class_attributes simulation_class =
        [''allow_merging'' \<mapsto> Some ExactlyEqual,
         ''steps'' \<mapsto> Some GreatestValue,
         ''output_frequency'' \<mapsto> Some SmallestValue,
         ''input_coordinate_file'' \<mapsto> Some ExactlyEqual,
         ''output_coordinate_file'' \<mapsto> None]"
  "class_attributes restart_class = class_attributes simulation_class"
  by (simp_all add: simulation_class_def restart_class_def)

lemmas example_simps = example_inputs[OF example_class_inputs(1)] example_inputs[OF example_class_inputs(2)]
  example_attributes example_type example_id example_outputs example_class_attributes




subsection \<open>What a true answer needs\<close>

lemma py_eq_truthy: "py_eq v w \<Longrightarrow> truthy v \<Longrightarrow> truthy w"
  by (cases v; cases w) (auto simp: py_eq_def split: if_splits)

lemma can_merge_inputs_true:
  assumes "can_merge_inputs self other paths = Inr True"
      and "p \<in> set paths"
      and "local_path self p"
      and "class_attributes (protocol_type self) (property_name p) = Some (Some ExactlyEqual)"
  shows "p \<in> set (required_inputs other)
         \<and> (\<exists>v w. get_value self p = Inr v \<and> get_value other p = Inr w \<and> py_eq v w)"
  using assms
proof (induction paths)
  case Nil
  then show ?case by simp
next
  case (Cons q qs)
  show ?case
  proof (cases "p = q")
    case True
    have tgt: "\<not> (start_protocol q \<noteq> None \<and> start_protocol q \<noteq> Some (protocol_id self))"
      using Cons.prems(3) True by (auto simp: local_path_def)
    show ?thesis
      using Cons.prems(1) Cons.prems(3,4) tgt True
      by (auto split: if_splits sum.splits)
  next
    case False
    then have mem: "p \<in> set qs" using Cons.prems(2) by simp
    have "can_merge_inputs self other qs = Inr True"
      using Cons.prems(1)
      by (auto split: if_splits option.splits sum.splits)
    from Cons.IH[OF this mem Cons.prems(3,4)] show ?thesis .
  qed
qed

text \<open>
  Claim C4, as amended. \<^verbatim>\<open>can_merge\<close> returns true only if \<^verbatim>\<open>allow_merging\<close> is true
  on \<open>self\<close> and \<open>self\<close> is an instance of the type of \<open>other\<close>: of the same type or
  of a subclass of it. The flag of \<open>other\<close> is only reached through the comparison of
  inputs: where \<^verbatim>\<open>allow_merging\<close> is a declared input of \<open>self\<close> tagged \<open>ExactlyEqual\<close>,
  it is true on \<open>other\<close> as well. For every pair in which the type of \<open>self\<close> is neither
  the type of \<open>other\<close> nor a subclass of it, \<^verbatim>\<open>can_merge\<close> is not true, and is false
  whatever the inputs are as soon as \<open>self\<close> has the flag.
\<close>

theorem can_merge_requires:
  "(can_merge self other = Inr True \<longrightarrow>
      (\<exists>v. attributes self ''allow_merging'' = Some v \<and> truthy v)
      \<and> isinstance self (protocol_type other)
      \<and> (ProtocolPath ''allow_merging'' \<in> set (required_inputs self)
           \<and> class_attributes (protocol_type self) ''allow_merging'' = Some (Some ExactlyEqual)
          \<longrightarrow> (\<exists>w. attributes other ''allow_merging'' = Some w \<and> truthy w)))
   \<and> (\<not> isinstance self (protocol_type other) \<longrightarrow>
      can_merge self other \<noteq> Inr True
      \<and> (attributes self ''allow_merging'' \<noteq> None \<longrightarrow> can_merge self other = Inr False))"
proof (intro conjI impI)
  assume cm: "can_merge self other = Inr True"
  then obtain v where v: "attributes self ''allow_merging'' = Some v" and tv: "truthy v"
    and inst: "isinstance self (protocol_type other)"
    and loop: "can_merge_inputs self other (required_inputs self) = Inr True"
    by (auto simp: can_merge_def split: option.splits if_splits)
  show "\<exists>v. attributes self ''allow_merging'' = Some v \<and> truthy v" using v tv by blast
  show "isinstance self (protocol_type other)" by (rule inst)
  assume decl: "ProtocolPath ''allow_merging'' \<in> set (required_inputs self)
           \<and> class_attributes (protocol_type self) ''allow_merging'' = Some (Some ExactlyEqual)"
  have loc: "local_path self (ProtocolPath ''allow_merging'')"
    by (simp add: local_path_def ProtocolPath_def start_protocol_def)
  have tag: "class_attributes (protocol_type self) (property_name (ProtocolPath ''allow_merging''))
               = Some (Some ExactlyEqual)"
    using decl by (simp add: ProtocolPath_def)
  from can_merge_inputs_true[OF loop _ loc tag] decl
  obtain v' w where gs: "get_value self (ProtocolPath ''allow_merging'') = Inr v'"
    and go: "get_value other (ProtocolPath ''allow_merging'') = Inr w" and eq: "py_eq v' w"
    by blast
  have "v' = v" using gs v by (simp add: get_value_def ProtocolPath_def start_protocol_def)
  moreover have "attributes other ''allow_merging'' = Some w"
    using go by (simp add: get_value_def ProtocolPath_def start_protocol_def split: option.splits)
  ultimately show "\<exists>w. attributes other ''allow_merging'' = Some w \<and> truthy w"
    using py_eq_truthy[OF eq] tv by blast
next
  assume "\<not> isinstance self (protocol_type other)"
  then show "can_merge self other \<noteq> Inr True"
    by (auto simp: can_merge_def split: option.splits)
next
  assume "\<not> isinstance self (protocol_type other)" and "attributes self ''allow_merging'' \<noteq> None"
  then show "can_merge self other = Inr False"
    by (auto simp: can_merge_def split: option.splits)
qed

theorem can_merge_requires_witness:
  "can_merge (simulation_with simulation_class ''production'' 50 1000)
             (simulation_with restart_class ''restart'' 20 500) = Inr False"
proof -
  have a: "\<not> isinstance (simulation_with simulation_class ''production'' 50 1000)
              (protocol_type (simulation_with restart_class ''restart'' 20 500))"
    by (simp add: isinstance_def example_simps) (simp add: simulation_class_def restart_class_def)
  have b: "attributes (simulation_with simulation_class ''production'' 50 1000) ''allow_merging'' \<noteq> None"
    by (simp add: example_simps)
  show ?thesis
    using can_merge_requires[of "simulation_with simulation_class ''production'' 50 1000"
        "simulation_with restart_class ''restart'' 20 500", THEN conjunct2, rule_format, OF a,
        THEN conjunct2, rule_format, OF b] .
qed

text \<open>
  The claim as stated fails for a node of a subclass paired with a node of its base
  class: \<^verbatim>\<open>isinstance(self, type(other))\<close> holds, and a subclass that declares no further
  \<open>ExactlyEqual\<close> input merges with its base.
\<close>

theorem subclass_merge_counterexample:
  "can_merge (simulation_with restart_class ''restart'' 20 500)
             (simulation_with simulation_class ''production'' 50 1000) = Inr True
   \<and> type_name (protocol_type (simulation_with restart_class ''restart'' 20 500))
       \<noteq> type_name (protocol_type (simulation_with simulation_class ''production'' 50 1000))"
proof -
  have inst: "isinstance (simulation_with restart_class ''restart'' 20 500) simulation_class"
    by (simp add: isinstance_def example_simps) (simp add: simulation_class_def restart_class_def)
  have loop: "can_merge_inputs (simulation_with restart_class ''restart'' 20 500)
             (simulation_with simulation_class ''production'' 50 1000)
             (required_inputs (simulation_with restart_class ''restart'' 20 500)) = Inr True"
    by (simp add: example_simps ProtocolPath_def start_protocol_def local_path_def get_value_def py_eq_def)
  have ty: "type_name restart_class \<noteq> type_name simulation_class"
    by (simp add: simulation_class_def restart_class_def)
  show ?thesis using inst loop ty by (simp add: can_merge_def example_simps)
qed

subsection \<open>Protocols of one type\<close>




section \<open>protocols.py: merge\<close>

subsection \<open>Minimum and maximum of values\<close>





lemma py_lt_flip: "py_lt b a = Inr r \<Longrightarrow> py_lt a a = Inr False"
  by (cases a; cases b) (auto simp: py_lt_def split: if_splits)



subsection \<open>Which attributes the loop combines\<close>




subsection \<open>One round of the loop\<close>






subsection \<open>The loop\<close>








end
